theory Spec2Isabelle
  imports Main "HOL-Library.AList"
begin

section \<open>Values exchanged with the store and the HTTP framework\<close>

text \<open>
  The controller never inspects the values it moves between the request, the store and
  the response. They are JavaScript values; \<open>JUndefined\<close> is what reading a missing
  property (a path parameter the route does not declare, a body no parser filled in)
  gives. Objects are association lists from property names to values; numbers are kept
  as integers, since nothing here computes with them.
\<close>

datatype jsval =
    JUndefined
  | JNull
  | JBool bool
  | JNum int
  | JStr string
  | JArr "jsval list"
  | JObj "(string \<times> jsval) list"

datatype error = Error string

section \<open>Express: request and response\<close>

record request =
  params :: "(string \<times> string) list"
  body :: jsval

text \<open>\<open>req.params.k\<close>: the string bound to \<open>k\<close>, or \<open>undefined\<close>.\<close>

definition param :: "request \<Rightarrow> string \<Rightarrow> jsval" where
  "param req k = (case map_of (params req) k of None \<Rightarrow> JUndefined | Some s \<Rightarrow> JStr s)"

text \<open>
  Of the response only what this layer can touch is kept: the status code, the content
  type header, and the bodies handed to \<open>res.json\<close>, in order.
\<close>

record response =
  statusCode :: nat
  contentType :: "string option"
  sent :: "jsval list"

text \<open>
  \<open>res.json(v)\<close> sets the content type to JSON unless one is set already, and sends
  \<open>v\<close> serialized. It does not touch the status code. A response that can no longer
  be written (its head already sent) is outside this model.
\<close>

definition json :: "jsval \<Rightarrow> response \<Rightarrow> response" where
  "json v res =
     res\<lparr>contentType := (case contentType res of
                              None \<Rightarrow> Some ''application/json''
                            | Some t \<Rightarrow> Some t),
         sent := sent res @ [v]\<rparr>"

text \<open>The response object Express hands to the first handler of a request.\<close>

definition fresh_response :: response where
  "fresh_response = \<lparr>statusCode = 200, contentType = None, sent = []\<rparr>"

section \<open>The store collaborator (UserDao)\<close>

text \<open>
  The class \<open>UserDao\<close> is imported, not defined, by the controller. A call of one of its
  methods either raises before returning, or returns a promise that is fulfilled with a
  value, is rejected with a reason, or never settles. The store's own state is of an
  arbitrary type \<open>'s\<close> and every method may change it.
\<close>

datatype 'a outcome =
    Resolves 'a
  | Rejects error
  | Throws error
  | Never

record 's UserDao =
  dao_findAllUsers :: "'s \<Rightarrow> jsval outcome \<times> 's"
  dao_findUserById :: "jsval \<Rightarrow> 's \<Rightarrow> jsval outcome \<times> 's"
  dao_createUser :: "jsval \<Rightarrow> 's \<Rightarrow> jsval outcome \<times> 's"
  dao_updateUser :: "jsval \<Rightarrow> jsval \<Rightarrow> 's \<Rightarrow> jsval outcome \<times> 's"
  dao_deleteUser :: "jsval \<Rightarrow> 's \<Rightarrow> jsval outcome \<times> 's"
  dao_deleteAllUsers :: "'s \<Rightarrow> jsval outcome \<times> 's"
  dao_deleteUsersByUsername :: "jsval \<Rightarrow> 's \<Rightarrow> jsval outcome \<times> 's"
  dao_findUsersByType :: "jsval \<Rightarrow> 's \<Rightarrow> jsval outcome \<times> 's"
  dao_findUsersByRestaurant :: "jsval \<Rightarrow> 's \<Rightarrow> jsval outcome \<times> 's"
  dao_deleteUsersByRestaurant :: "jsval \<Rightarrow> 's \<Rightarrow> jsval outcome \<times> 's"

text \<open>A method call with its arguments, as it is recorded in the trace of a handler.\<close>

datatype dao_call =
    FindAllUsers
  | FindUserById jsval
  | CreateUser jsval
  | UpdateUser jsval jsval
  | DeleteUser jsval
  | DeleteAllUsers
  | DeleteUsersByUsername jsval
  | FindUsersByType jsval
  | FindUsersByRestaurant jsval
  | DeleteUsersByRestaurant jsval

fun invoke :: "'s UserDao \<Rightarrow> dao_call \<Rightarrow> 's \<Rightarrow> jsval outcome \<times> 's" where
  "invoke dao FindAllUsers = dao_findAllUsers dao"
| "invoke dao (FindUserById uid) = dao_findUserById dao uid"
| "invoke dao (CreateUser user) = dao_createUser dao user"
| "invoke dao (UpdateUser uid user) = dao_updateUser dao uid user"
| "invoke dao (DeleteUser uid) = dao_deleteUser dao uid"
| "invoke dao DeleteAllUsers = dao_deleteAllUsers dao"
| "invoke dao (DeleteUsersByUsername username) = dao_deleteUsersByUsername dao username"
| "invoke dao (FindUsersByType t) = dao_findUsersByType dao t"
| "invoke dao (FindUsersByRestaurant rid) = dao_findUsersByRestaurant dao rid"
| "invoke dao (DeleteUsersByRestaurant rid) = dao_deleteUsersByRestaurant dao rid"

section \<open>Running a handler\<close>

text \<open>
  What a handler can change while it runs: the store (through the calls it makes), the
  trace of those calls, and the response object it was given.
\<close>

record 's run =
  db :: 's
  trace :: "dao_call list"
  res :: response

definition start :: "'s \<Rightarrow> response \<Rightarrow> 's run" where
  "start s r = \<lparr>db = s, trace = [], res = r\<rparr>"

text \<open>
  What the caller of a handler gets back: a promise fulfilled (with the response
  object), a promise rejected, an exception raised by the call itself, or a promise that
  stays pending.
\<close>

datatype completion =
    Fulfilled
  | Rejected error
  | Raised error
  | Pending

definition call :: "'s UserDao \<Rightarrow> dao_call \<Rightarrow> 's run \<Rightarrow> jsval outcome \<times> 's run" where
  "call dao c st =
     (case invoke dao c (db st) of
        (out, s') \<Rightarrow> (out, st\<lparr>db := s', trace := trace st @ [c]\<rparr>))"

text \<open>
  \<open>p.then(f)\<close> for a one-argument \<open>then\<close>: \<open>f\<close> runs only when \<open>p\<close> is fulfilled; a
  rejection is passed on with its reason, and nothing runs while \<open>p\<close> is pending.
\<close>

definition then_do ::
  "jsval outcome \<times> 's run \<Rightarrow> (jsval \<Rightarrow> response \<Rightarrow> response) \<Rightarrow> completion \<times> 's run" where
  "then_do p f =
     (case p of
        (Resolves v, st) \<Rightarrow> (Fulfilled, st\<lparr>res := f v (res st)\<rparr>)
      | (Rejects e, st) \<Rightarrow> (Rejected e, st)
      | (Throws e, st) \<Rightarrow> (Raised e, st)
      | (Never, st) \<Rightarrow> (Pending, st))"

section \<open>The handlers of UserController\<close>

text \<open>
  The static field \<open>UserController.userDao\<close> is set once, when the class is loaded; the
  handlers read it and nothing writes it, so it is the parameter \<open>dao\<close>.
\<close>

definition findAllUsers :: "'s UserDao \<Rightarrow> request \<Rightarrow> 's run \<Rightarrow> completion \<times> 's run" where
  "findAllUsers dao req st =
     then_do (call dao FindAllUsers st) (\<lambda>users. json users)"

definition findUserById :: "'s UserDao \<Rightarrow> request \<Rightarrow> 's run \<Rightarrow> completion \<times> 's run" where
  "findUserById dao req st =
     then_do (call dao (FindUserById (param req ''userid'')) st) (\<lambda>user. json user)"

definition createUser :: "'s UserDao \<Rightarrow> request \<Rightarrow> 's run \<Rightarrow> completion \<times> 's run" where
  "createUser dao req st =
     then_do (call dao (CreateUser (body req)) st) (\<lambda>user. json user)"

definition updateUser :: "'s UserDao \<Rightarrow> request \<Rightarrow> 's run \<Rightarrow> completion \<times> 's run" where
  "updateUser dao req st =
     then_do (call dao (UpdateUser (param req ''userid'') (body req)) st) (\<lambda>status. json status)"

definition deleteUser :: "'s UserDao \<Rightarrow> request \<Rightarrow> 's run \<Rightarrow> completion \<times> 's run" where
  "deleteUser dao req st =
     then_do (call dao (DeleteUser (param req ''userid'')) st) (\<lambda>status. json status)"

definition deleteAllUsers :: "'s UserDao \<Rightarrow> request \<Rightarrow> 's run \<Rightarrow> completion \<times> 's run" where
  "deleteAllUsers dao req st =
     then_do (call dao DeleteAllUsers st) (\<lambda>status. json status)"

definition deleteUsersByUsername ::
  "'s UserDao \<Rightarrow> request \<Rightarrow> 's run \<Rightarrow> completion \<times> 's run" where
  "deleteUsersByUsername dao req st =
     then_do (call dao (DeleteUsersByUsername (param req ''username'')) st) (\<lambda>status. json status)"

definition findUsersByType :: "'s UserDao \<Rightarrow> request \<Rightarrow> 's run \<Rightarrow> completion \<times> 's run" where
  "findUsersByType dao req st =
     then_do (call dao (FindUsersByType (param req ''type'')) st) (\<lambda>users. json users)"

definition findUsersByRestaurant ::
  "'s UserDao \<Rightarrow> request \<Rightarrow> 's run \<Rightarrow> completion \<times> 's run" where
  "findUsersByRestaurant dao req st =
     then_do (call dao (FindUsersByRestaurant (param req ''rid'')) st) (\<lambda>users. json users)"

definition deleteUsersByRestaurant ::
  "'s UserDao \<Rightarrow> request \<Rightarrow> 's run \<Rightarrow> completion \<times> 's run" where
  "deleteUsersByRestaurant dao req st =
     then_do (call dao (DeleteUsersByRestaurant (param req ''rid'')) st) (\<lambda>status. json status)"

section \<open>Route registration: the singleton initializer\<close>

datatype http_method = GET | POST | PUT | DELETE

text \<open>The ten function-valued members of a controller object.\<close>

datatype handler =
    HfindAllUsers
  | HfindUserById
  | HcreateUser
  | HupdateUser
  | HdeleteUser
  | HdeleteAllUsers
  | HdeleteUsersByUsername
  | HfindUsersByType
  | HfindUsersByRestaurant
  | HdeleteUsersByRestaurant

fun run_handler ::
  "handler \<Rightarrow> 's UserDao \<Rightarrow> request \<Rightarrow> 's run \<Rightarrow> completion \<times> 's run" where
  "run_handler HfindAllUsers = findAllUsers"
| "run_handler HfindUserById = findUserById"
| "run_handler HcreateUser = createUser"
| "run_handler HupdateUser = updateUser"
| "run_handler HdeleteUser = deleteUser"
| "run_handler HdeleteAllUsers = deleteAllUsers"
| "run_handler HdeleteUsersByUsername = deleteUsersByUsername"
| "run_handler HfindUsersByType = findUsersByType"
| "run_handler HfindUsersByRestaurant = findUsersByRestaurant"
| "run_handler HdeleteUsersByRestaurant = deleteUsersByRestaurant"

text \<open>
  Objects have identity. A controller object is known by the number of controllers
  constructed before it; an Express application by a reference. A route binds a method
  and a path pattern to a member of one controller object.
\<close>

datatype controller = Controller nat

type_synonym app = nat

record route =
  rmethod :: http_method
  rpath :: string
  rhandler :: "controller \<times> handler"

text \<open>
  The mutable state \<open>getInstance\<close> reads and writes: the static field
  \<open>UserController.userController\<close> (\<open>None\<close> is \<open>null\<close>), the count of controllers
  constructed so far, and the route table of every Express application.
\<close>

record world =
  userController :: "controller option"
  constructed :: nat
  routes :: "app \<Rightarrow> route list"

definition add_route ::
  "http_method \<Rightarrow> app \<Rightarrow> string \<Rightarrow> controller \<times> handler \<Rightarrow> world \<Rightarrow> world" where
  "add_route m a p h w =
     w\<lparr>routes := (routes w)(a := routes w a @ [\<lparr>rmethod = m, rpath = p, rhandler = h\<rparr>])\<rparr>"

abbreviation app_get :: "app \<Rightarrow> string \<Rightarrow> controller \<times> handler \<Rightarrow> world \<Rightarrow> world" where
  "app_get \<equiv> add_route GET"

abbreviation app_post :: "app \<Rightarrow> string \<Rightarrow> controller \<times> handler \<Rightarrow> world \<Rightarrow> world" where
  "app_post \<equiv> add_route POST"

abbreviation app_put :: "app \<Rightarrow> string \<Rightarrow> controller \<times> handler \<Rightarrow> world \<Rightarrow> world" where
  "app_put \<equiv> add_route PUT"

abbreviation app_delete :: "app \<Rightarrow> string \<Rightarrow> controller \<times> handler \<Rightarrow> world \<Rightarrow> world" where
  "app_delete \<equiv> add_route DELETE"

text \<open>\<open>new UserController()\<close>: the constructor body is empty.\<close>

definition new_UserController :: "world \<Rightarrow> controller \<times> world" where
  "new_UserController w = (Controller (constructed w), w\<lparr>constructed := Suc (constructed w)\<rparr>)"

definition getInstance :: "app \<Rightarrow> world \<Rightarrow> controller \<times> world" where
  "getInstance a w =
     (case userController w of
        None \<Rightarrow>
          (case new_UserController w of
             (c, w0) \<Rightarrow>
               let w1 = w0\<lparr>userController := Some c\<rparr>;
                   w2 = app_get a ''/api/users'' (c, HfindAllUsers) w1;
                   w3 = app_get a ''/api/users/:userid'' (c, HfindUserById) w2;
                   w4 = app_post a ''/api/users'' (c, HcreateUser) w3;
                   w5 = app_put a ''/api/users/:userid'' (c, HupdateUser) w4;
                   w6 = app_delete a ''/api/users/:userid'' (c, HdeleteUser) w5;
                   w7 = app_delete a ''/api/users'' (c, HdeleteAllUsers) w6;
                   w8 = app_delete a ''/api/users/username/:username/delete''
                          (c, HdeleteUsersByUsername) w7;
                   w9 = app_get a ''/api/users/type/:type'' (c, HfindUsersByType) w8;
                   w10 = app_get a ''/api/users/business/:rid'' (c, HfindUsersByRestaurant) w9;
                   w11 = app_delete a ''/api/users/business/:rid''
                           (c, HdeleteUsersByRestaurant) w10
               in (c, w11))
      | Some c \<Rightarrow> (c, w))"

text \<open>
  The state when the class has just been loaded: the static field is \<open>null\<close>, no
  controller was constructed, no application has a route.
\<close>

definition initial_world :: world where
  "initial_world = \<lparr>userController = None, constructed = 0, routes = (\<lambda>a. [])\<rparr>"

section \<open>Express: dispatching a request to a route\<close>

text \<open>
  A minimal model of the router. A request path is the list of its segments (the pieces
  between slashes, decoded). A pattern is split at slashes; a piece that starts with a
  colon binds the segment in its place to the name after the colon, any other piece
  must equal the segment. The first registered route whose method and pattern match
  handles the request; none of the handlers here passes control on. Express's
  optional leniencies (letter case, a trailing slash) are not modelled.
\<close>

datatype seg = Lit string | Param string

fun pieces :: "string \<Rightarrow> string \<Rightarrow> string list" where
  "pieces cur [] = (if cur = [] then [] else [cur])"
| "pieces cur (c # cs) =
     (if c = CHR ''/'' then (if cur = [] then pieces [] cs else cur # pieces [] cs)
      else pieces (cur @ [c]) cs)"

definition split_path :: "string \<Rightarrow> string list" where
  "split_path p = pieces [] p"

fun pattern_seg :: "string \<Rightarrow> seg" where
  "pattern_seg [] = Lit []"
| "pattern_seg (c # cs) = (if c = CHR '':'' then Param cs else Lit (c # cs))"

definition parse_pattern :: "string \<Rightarrow> seg list" where
  "parse_pattern p = map pattern_seg (split_path p)"

fun match_segs :: "seg list \<Rightarrow> string list \<Rightarrow> (string \<times> string) list option" where
  "match_segs [] [] = Some []"
| "match_segs (Lit l # ps) (s # ss) = (if l = s then match_segs ps ss else None)"
| "match_segs (Param n # ps) (s # ss) =
     (case match_segs ps ss of None \<Rightarrow> None | Some bs \<Rightarrow> Some ((n, s) # bs))"
| "match_segs [] (s # ss) = None"
| "match_segs (p # ps) [] = None"

fun find_route ::
  "route list \<Rightarrow> http_method \<Rightarrow> string list \<Rightarrow> (route \<times> (string \<times> string) list) option" where
  "find_route [] m p = None"
| "find_route (r # rs) m p =
     (if rmethod r = m
      then (case match_segs (parse_pattern (rpath r)) p of
              Some bs \<Rightarrow> Some (r, bs)
            | None \<Rightarrow> find_route rs m p)
      else find_route rs m p)"

text \<open>
  Serving one request on application \<open>a\<close>: \<open>None\<close> when no route of \<open>a\<close> matches (the
  framework answers then, not this layer); otherwise the matching handler runs on the
  request, with the bound path parameters and the parsed body, and a fresh response.
\<close>

definition serve ::
  "'s UserDao \<Rightarrow> world \<Rightarrow> app \<Rightarrow> http_method \<Rightarrow> string list \<Rightarrow> jsval \<Rightarrow> 's
     \<Rightarrow> (completion \<times> 's run) option" where
  "serve dao w a m p b s =
     (case find_route (routes w a) m p of
        None \<Rightarrow> None
      | Some (r, bs) \<Rightarrow>
          Some (run_handler (snd (rhandler r)) dao \<lparr>params = bs, body = b\<rparr>
                  (start s fresh_response)))"

section \<open>The specification's tables\<close>

text \<open>The ten operations of the specification's public contract, in its order.\<close>

datatype operation =
    ListAll
  | GetById
  | Create
  | Update
  | DeleteById
  | DeleteAll
  | DeleteByUsername
  | FindByType
  | FindByRestaurant
  | DeleteByRestaurant

definition operations :: "operation list" where
  "operations =
     [ListAll, GetById, Create, Update, DeleteById, DeleteAll, DeleteByUsername,
      FindByType, FindByRestaurant, DeleteByRestaurant]"

text \<open>
  The HTTP surface as the specification prints it: method and path of each operation, a
  path parameter written in braces.
\<close>

fun spec_surface :: "operation \<Rightarrow> http_method \<times> string" where
  "spec_surface ListAll = (GET, ''/users'')"
| "spec_surface GetById = (GET, ''/users/{id}'')"
| "spec_surface Create = (POST, ''/users'')"
| "spec_surface Update = (PUT, ''/users/{id}'')"
| "spec_surface DeleteById = (DELETE, ''/users/{id}'')"
| "spec_surface DeleteAll = (DELETE, ''/users'')"
| "spec_surface DeleteByUsername = (DELETE, ''/users/username/{username}/delete'')"
| "spec_surface FindByType = (GET, ''/users/type/{type}'')"
| "spec_surface FindByRestaurant = (GET, ''/users/business/{rid}'')"
| "spec_surface DeleteByRestaurant = (DELETE, ''/users/business/{rid}'')"

fun spec_seg :: "string \<Rightarrow> seg" where
  "spec_seg [] = Lit []"
| "spec_seg (c # cs) = (if c = CHR ''{'' \<and> cs \<noteq> [] \<and> last cs = CHR ''}''
                         then Param (butlast cs) else Lit (c # cs))"

definition parse_spec_path :: "string \<Rightarrow> seg list" where
  "parse_spec_path p = map spec_seg (split_path p)"

text \<open>
  Two patterns accept the same paths when they agree on the literal pieces and on the
  places of the parameters; the names of the parameters do not matter.
\<close>

fun shape :: "seg \<Rightarrow> string option" where
  "shape (Lit l) = Some l"
| "shape (Param n) = None"

definition spec_method :: "operation \<Rightarrow> http_method" where
  "spec_method op = fst (spec_surface op)"

definition spec_shape :: "operation \<Rightarrow> string option list" where
  "spec_shape op = map shape (parse_spec_path (snd (spec_surface op)))"

definition route_shape :: "route \<Rightarrow> string option list" where
  "route_shape r = map shape (parse_pattern (rpath r))"

text \<open>The path of a request for a pattern: the parameter places filled with \<open>x\<close>.\<close>

fun fill :: "string \<Rightarrow> string option \<Rightarrow> string" where
  "fill x (Some l) = l"
| "fill x None = x"

definition spec_path :: "operation \<Rightarrow> string \<Rightarrow> string list" where
  "spec_path op x = map (fill x) (spec_shape op)"

text \<open>
  The store call of each operation, from the contract table: \<open>x\<close> is the path parameter
  of the request (for the operations that have one) and \<open>b\<close> its body.
\<close>

fun spec_store_call :: "operation \<Rightarrow> jsval \<Rightarrow> jsval \<Rightarrow> dao_call" where
  "spec_store_call ListAll x b = FindAllUsers"
| "spec_store_call GetById x b = FindUserById x"
| "spec_store_call Create x b = CreateUser b"
| "spec_store_call Update x b = UpdateUser x b"
| "spec_store_call DeleteById x b = DeleteUser x"
| "spec_store_call DeleteAll x b = DeleteAllUsers"
| "spec_store_call DeleteByUsername x b = DeleteUsersByUsername x"
| "spec_store_call FindByType x b = FindUsersByType x"
| "spec_store_call FindByRestaurant x b = FindUsersByRestaurant x"
| "spec_store_call DeleteByRestaurant x b = DeleteUsersByRestaurant x"

text \<open>
  What the specification says a handler leaves behind: on success one JSON response with
  status 200 whose body is the resolved value; otherwise this layer writes nothing and
  the failure is passed on.
\<close>

fun spec_response :: "jsval outcome \<Rightarrow> response" where
  "spec_response (Resolves v) =
     \<lparr>statusCode = 200, contentType = Some ''application/json'', sent = [v]\<rparr>"
| "spec_response (Rejects e) = fresh_response"
| "spec_response (Throws e) = fresh_response"
| "spec_response Never = fresh_response"

fun spec_completion :: "jsval outcome \<Rightarrow> completion" where
  "spec_completion (Resolves v) = Fulfilled"
| "spec_completion (Rejects e) = Rejected e"
| "spec_completion (Throws e) = Raised e"
| "spec_completion Never = Pending"

section \<open>A store that follows the specification\<close>

text \<open>
  The class \<open>UserDao\<close> (\<open>../daos/UserDao\<close>) is imported by the controller and is not
  part of the sources at hand. Where a property depends on what the store does, and
  not only on what the controller does with its answers, the definitions of this
  section stand in for it. They follow the specification: the store owns all user
  records and has sole authority over the assignment of identifiers. The store here
  never fails.
\<close>

text \<open>
  Modelled from the spec: the User records of the missing \<open>UserDao\<close>. A user is an
  object with at least the field \<open>id\<close>, and \<open>username\<close>, \<open>type\<close> and \<open>restaurant\<close>.
\<close>

type_synonym user = "(string \<times> jsval) list"

text \<open>
  Modelled from the spec: the state of the missing \<open>UserDao\<close>, the user records (the
  newest first) and the next identifier to assign.
\<close>

record store =
  users :: "user list"
  next_id :: nat

text \<open>
  Modelled from the spec: the exact-match filter of the missing \<open>UserDao\<close> on one field.
\<close>

definition has_field :: "string \<Rightarrow> jsval \<Rightarrow> user \<Rightarrow> bool" where
  "has_field k v u = (map_of u k = Some v)"

text \<open>
  Modelled from the spec: the StatusResult of the missing \<open>UserDao\<close>, an opaque
  success/count marker.
\<close>

definition status :: "string \<Rightarrow> nat \<Rightarrow> jsval" where
  "status k n = JObj [(k, JNum (int n))]"

text \<open>
  Modelled from the spec: identity assignment by the missing \<open>UserDao\<close>. Identifiers
  are handed out in sequence, written in decimal.
\<close>

function show_nat :: "nat \<Rightarrow> string" where
  "show_nat n =
     (if n < 10 then [char_of (48 + n)]
      else show_nat (n div 10) @ [char_of (48 + n mod 10)])"
  by pat_completeness auto
termination
  by (relation "measure id") auto

declare show_nat.simps [simp del]

text \<open>
  Modelled from the spec: \<open>findAll\<close>, \<open>findByType\<close> and \<open>findByRestaurant\<close> of the
  missing \<open>UserDao\<close>: the sequence of the users that pass the filter.
\<close>

definition find_where :: "(user \<Rightarrow> bool) \<Rightarrow> store \<Rightarrow> jsval outcome \<times> store" where
  "find_where P s = (Resolves (JArr (map JObj (filter P (users s)))), s)"

text \<open>
  Modelled from the spec: \<open>deleteById\<close>, \<open>deleteAll\<close>, \<open>deleteByUsername\<close> and
  \<open>deleteByRestaurant\<close> of the missing \<open>UserDao\<close>: zero or more records are removed,
  the result is a status with their count.
\<close>

definition delete_where :: "(user \<Rightarrow> bool) \<Rightarrow> store \<Rightarrow> jsval outcome \<times> store" where
  "delete_where P s =
     (Resolves (status ''deletedCount'' (length (filter P (users s)))),
      s\<lparr>users := filter (\<lambda>u. \<not> P u) (users s)\<rparr>)"

text \<open>
  Modelled from the spec: \<open>findById\<close> of the missing \<open>UserDao\<close>: a single user, or the
  store's "not found" result, null.
\<close>

definition store_findById :: "jsval \<Rightarrow> store \<Rightarrow> jsval outcome \<times> store" where
  "store_findById i s =
     (Resolves (case find (has_field ''id'' i) (users s) of
                  None \<Rightarrow> JNull
                | Some u \<Rightarrow> JObj u), s)"

text \<open>
  Modelled from the spec: the fields the missing \<open>UserDao\<close> takes from a request body.
  The body is a partial User whose shape nobody validates: an object gives its fields,
  and a body that is no object has no field to give.
\<close>

definition body_fields :: "jsval \<Rightarrow> user" where
  "body_fields b = (case b of JObj fs \<Rightarrow> fs | _ \<Rightarrow> [])"

text \<open>
  Modelled from the spec: \<open>create\<close> of the missing \<open>UserDao\<close>: the created user, which
  is the fields of the body with an assigned id. Every body is accepted.
\<close>

definition store_create :: "jsval \<Rightarrow> store \<Rightarrow> jsval outcome \<times> store" where
  "store_create b s =
     (let u = AList.update ''id'' (JStr (show_nat (next_id s))) (body_fields b)
      in (Resolves (JObj u), s\<lparr>users := u # users s, next_id := Suc (next_id s)\<rparr>))"

text \<open>
  Modelled from the spec: how the missing \<open>UserDao\<close> writes the fields of an update
  into a record.
\<close>

definition set_fields :: "user \<Rightarrow> user \<Rightarrow> user" where
  "set_fields fs u = foldl (\<lambda>acc (k, v). AList.update k v acc) u fs"

text \<open>
  Modelled from the spec: \<open>update\<close> of the missing \<open>UserDao\<close>: the records with the id
  take the fields of the body, the result is a status with their count, never a
  record. No existence check is made, and every body is accepted.
\<close>

definition store_update :: "jsval \<Rightarrow> jsval \<Rightarrow> store \<Rightarrow> jsval outcome \<times> store" where
  "store_update i b s =
     (Resolves (status ''modifiedCount'' (length (filter (has_field ''id'' i) (users s)))),
      s\<lparr>users := map (\<lambda>u. if has_field ''id'' i u
                            then AList.update ''id'' i (set_fields (body_fields b) u) else u)
                      (users s)\<rparr>)"

text \<open>
  Modelled from the spec: the missing \<open>UserDao\<close> as a whole, the ten operations of the
  collaborator interface.
\<close>

definition spec_dao :: "store UserDao" where
  "spec_dao =
     \<lparr>dao_findAllUsers = find_where (\<lambda>u. True),
      dao_findUserById = store_findById,
      dao_createUser = store_create,
      dao_updateUser = store_update,
      dao_deleteUser = (\<lambda>i. delete_where (has_field ''id'' i)),
      dao_deleteAllUsers = delete_where (\<lambda>u. True),
      dao_deleteUsersByUsername = (\<lambda>n. delete_where (has_field ''username'' n)),
      dao_findUsersByType = (\<lambda>t. find_where (has_field ''type'' t)),
      dao_findUsersByRestaurant = (\<lambda>r. find_where (has_field ''restaurant'' r)),
      dao_deleteUsersByRestaurant = (\<lambda>r. delete_where (has_field ''restaurant'' r))\<rparr>"

section \<open>A freshly initialized application\<close>

text \<open>
  The world after the first call of \<open>getInstance\<close>, made on application \<open>a\<close> right
  after the class was loaded.
\<close>

definition boot :: "app \<Rightarrow> world" where
  "boot a = snd (getInstance a initial_world)"

text \<open>What a route accepts, and what a row of the specification's table accepts.\<close>

definition route_sig :: "route \<Rightarrow> http_method \<times> string option list" where
  "route_sig r = (rmethod r, route_shape r)"

definition spec_sig :: "operation \<Rightarrow> http_method \<times> string option list" where
  "spec_sig op = (spec_method op, spec_shape op)"

definition api_sig :: "operation \<Rightarrow> http_method \<times> string option list" where
  "api_sig op = (spec_method op, Some ''api'' # spec_shape op)"

text \<open>What a registered route is: method, pattern and the member bound to it.\<close>

definition binding :: "route \<Rightarrow> http_method \<times> string \<times> handler" where
  "binding r = (rmethod r, rpath r, snd (rhandler r))"

section \<open>Facts about registration and dispatch\<close>

lemma getInstance_null:
  "userController w = None \<Longrightarrow>
   getInstance a w =
     (Controller (constructed w),
      w\<lparr>userController := Some (Controller (constructed w)),
        constructed := Suc (constructed w),
        routes := (routes w)(a := routes w a @
          [\<lparr>rmethod = GET, rpath = ''/api/users'', rhandler = (Controller (constructed w), HfindAllUsers)\<rparr>,
           \<lparr>rmethod = GET, rpath = ''/api/users/:userid'', rhandler = (Controller (constructed w), HfindUserById)\<rparr>,
           \<lparr>rmethod = POST, rpath = ''/api/users'', rhandler = (Controller (constructed w), HcreateUser)\<rparr>,
           \<lparr>rmethod = PUT, rpath = ''/api/users/:userid'', rhandler = (Controller (constructed w), HupdateUser)\<rparr>,
           \<lparr>rmethod = DELETE, rpath = ''/api/users/:userid'', rhandler = (Controller (constructed w), HdeleteUser)\<rparr>,
           \<lparr>rmethod = DELETE, rpath = ''/api/users'', rhandler = (Controller (constructed w), HdeleteAllUsers)\<rparr>,
           \<lparr>rmethod = DELETE, rpath = ''/api/users/username/:username/delete'', rhandler = (Controller (constructed w), HdeleteUsersByUsername)\<rparr>,
           \<lparr>rmethod = GET, rpath = ''/api/users/type/:type'', rhandler = (Controller (constructed w), HfindUsersByType)\<rparr>,
           \<lparr>rmethod = GET, rpath = ''/api/users/business/:rid'', rhandler = (Controller (constructed w), HfindUsersByRestaurant)\<rparr>,
           \<lparr>rmethod = DELETE, rpath = ''/api/users/business/:rid'', rhandler = (Controller (constructed w), HdeleteUsersByRestaurant)\<rparr>])\<rparr>)"
  by (simp add: getInstance_def new_UserController_def add_route_def Let_def)

lemma getInstance_set: "userController w = Some c \<Longrightarrow> getInstance a w = (c, w)"
  by (simp add: getInstance_def)

lemma routes_boot:
  "routes (boot a) a =
          [\<lparr>rmethod = GET, rpath = ''/api/users'', rhandler = (Controller 0, HfindAllUsers)\<rparr>,
           \<lparr>rmethod = GET, rpath = ''/api/users/:userid'', rhandler = (Controller 0, HfindUserById)\<rparr>,
           \<lparr>rmethod = POST, rpath = ''/api/users'', rhandler = (Controller 0, HcreateUser)\<rparr>,
           \<lparr>rmethod = PUT, rpath = ''/api/users/:userid'', rhandler = (Controller 0, HupdateUser)\<rparr>,
           \<lparr>rmethod = DELETE, rpath = ''/api/users/:userid'', rhandler = (Controller 0, HdeleteUser)\<rparr>,
           \<lparr>rmethod = DELETE, rpath = ''/api/users'', rhandler = (Controller 0, HdeleteAllUsers)\<rparr>,
           \<lparr>rmethod = DELETE, rpath = ''/api/users/username/:username/delete'', rhandler = (Controller 0, HdeleteUsersByUsername)\<rparr>,
           \<lparr>rmethod = GET, rpath = ''/api/users/type/:type'', rhandler = (Controller 0, HfindUsersByType)\<rparr>,
           \<lparr>rmethod = GET, rpath = ''/api/users/business/:rid'', rhandler = (Controller 0, HfindUsersByRestaurant)\<rparr>,
           \<lparr>rmethod = DELETE, rpath = ''/api/users/business/:rid'', rhandler = (Controller 0, HdeleteUsersByRestaurant)\<rparr>]"
  by (simp add: boot_def getInstance_null initial_world_def)

lemmas handler_defs =
  findAllUsers_def findUserById_def createUser_def updateUser_def deleteUser_def
  deleteAllUsers_def deleteUsersByUsername_def findUsersByType_def
  findUsersByRestaurant_def deleteUsersByRestaurant_def

lemmas path_defs =
  spec_method_def spec_path_def spec_shape_def parse_spec_path_def parse_pattern_def
  split_path_def

lemma then_call:
  "then_do (call dao c st) json =
     (case invoke dao c (db st) of
        (out, s') \<Rightarrow>
          (spec_completion out,
           \<lparr>db = s', trace = trace st @ [c],
              res = (case out of Resolves v \<Rightarrow> json v (res st) | _ \<Rightarrow> res st)\<rparr>))"
  by (simp add: then_do_def call_def split: prod.splits outcome.splits)

lemma json_fresh: "json v fresh_response = spec_response (Resolves v)"
  by (simp add: json_def fresh_response_def)

lemma serve_boot:
  "serve dao (boot a) a (spec_method op) (''api'' # spec_path op x) b s =
     (case invoke dao (spec_store_call op (JStr x) b) s of
        (out, s') \<Rightarrow>
          Some (spec_completion out,
                \<lparr>db = s', trace = [spec_store_call op (JStr x) b], res = spec_response out\<rparr>))"
  by (cases op)
     (simp_all add: serve_def routes_boot path_defs handler_defs then_call
        param_def start_def json_fresh
        split: prod.splits outcome.splits)

lemma run_handler_shape:
  "\<exists>c. run_handler h dao req st =
     (spec_completion (fst (invoke dao c (db st))),
      \<lparr>db = snd (invoke dao c (db st)), trace = trace st @ [c],
         res = (case fst (invoke dao c (db st)) of
                  Resolves v \<Rightarrow> json v (res st) | _ \<Rightarrow> res st)\<rparr>)"
  by (cases h) (simp_all add: handler_defs then_call split: prod.splits)

lemma spec_completion_Rejected:
  "spec_completion out = Rejected e \<longleftrightarrow> out = Rejects e"
  by (cases out) simp_all

lemma statusCode_json: "statusCode (json v r) = statusCode r"
  by (simp add: json_def)

lemma serve_delete_all:
  "serve dao (boot a) a DELETE [''api'', ''users''] b s =
     (case dao_deleteAllUsers dao s of
        (out, s') \<Rightarrow>
          Some (spec_completion out, \<lparr>db = s', trace = [DeleteAllUsers], res = spec_response out\<rparr>))"
  using serve_boot [of dao a DeleteAll "[]" b s] by (simp add: path_defs)

lemma serve_list_all:
  "serve dao (boot a) a GET [''api'', ''users''] b s =
     (case dao_findAllUsers dao s of
        (out, s') \<Rightarrow>
          Some (spec_completion out, \<lparr>db = s', trace = [FindAllUsers], res = spec_response out\<rparr>))"
  using serve_boot [of dao a ListAll "[]" b s] by (simp add: path_defs)

lemma serve_create:
  "serve dao (boot a) a POST [''api'', ''users''] b s =
     (case dao_createUser dao b s of
        (out, s') \<Rightarrow>
          Some (spec_completion out, \<lparr>db = s', trace = [CreateUser b], res = spec_response out\<rparr>))"
  using serve_boot [of dao a Create "[]" b s] by (simp add: path_defs)

lemma serve_get:
  "serve dao (boot a) a GET [''api'', ''users'', i] b s =
     (case dao_findUserById dao (JStr i) s of
        (out, s') \<Rightarrow>
          Some (spec_completion out,
                \<lparr>db = s', trace = [FindUserById (JStr i)], res = spec_response out\<rparr>))"
  using serve_boot [of dao a GetById i b s] by (simp add: path_defs)

lemma serve_put:
  "serve dao (boot a) a PUT [''api'', ''users'', i] b s =
     (case dao_updateUser dao (JStr i) b s of
        (out, s') \<Rightarrow>
          Some (spec_completion out,
                \<lparr>db = s', trace = [UpdateUser (JStr i) b], res = spec_response out\<rparr>))"
  using serve_boot [of dao a Update i b s] by (simp add: path_defs)

lemma status_no_record: "has_field ''id'' v u \<Longrightarrow> JObj u \<noteq> status ''modifiedCount'' n"
  by (auto simp: has_field_def status_def)

section \<open>The handlers are pass-throughs\<close>

text \<open>
  Claim C1. For every one of the ten routes and every request, the handler invokes
  exactly one store method, passing only the designated path parameter and/or the
  request body, unmodified, and on successful resolution writes exactly the resolved
  value as the JSON response body: one response write, no other store call.

  First conjunct: a request for operation \<open>op\<close> of the specification, with path
  parameter \<open>x\<close> and body \<open>b\<close>, served by a freshly initialized application, makes the
  one store call of the contract table and leaves the response the specification
  describes. Second conjunct: the ten operations are served by the ten registered
  routes, in order. Third conjunct: whatever request and response a handler is given, it
  extends the trace by one call, and the response by the resolved value exactly when
  that call resolves.
\<close>

theorem handler_pass_through:
  "serve dao (boot a) a (spec_method op) (''api'' # spec_path op x) b s =
     (case invoke dao (spec_store_call op (JStr x) b) s of
        (out, s') \<Rightarrow>
          Some (spec_completion out,
                \<lparr>db = s', trace = [spec_store_call op (JStr x) b], res = spec_response out\<rparr>))
   \<and> map (\<lambda>op. map_option fst
               (find_route (routes (boot a) a) (spec_method op) (''api'' # spec_path op x)))
         operations
       = map Some (routes (boot a) a)
   \<and> (case run_handler h dao req st of
        (k, st') \<Rightarrow>
          length (trace st') = Suc (length (trace st)) \<and>
          (case invoke dao (last (trace st')) (db st) of
             (out, s') \<Rightarrow>
               k = spec_completion out \<and> db st' = s' \<and>
               res st' = (case out of Resolves v \<Rightarrow> json v (res st) | _ \<Rightarrow> res st)) \<and>
          sent (res st') =
            sent (res st) @
              (case fst (invoke dao (last (trace st')) (db st)) of
                 Resolves v \<Rightarrow> [v] | _ \<Rightarrow> []))"
proof (intro conjI)
  show "serve dao (boot a) a (spec_method op) (''api'' # spec_path op x) b s =
     (case invoke dao (spec_store_call op (JStr x) b) s of
        (out, s') \<Rightarrow>
          Some (spec_completion out,
                \<lparr>db = s', trace = [spec_store_call op (JStr x) b], res = spec_response out\<rparr>))"
    by (rule serve_boot)
  show "map (\<lambda>op. map_option fst
               (find_route (routes (boot a) a) (spec_method op) (''api'' # spec_path op x)))
         operations
       = map Some (routes (boot a) a)"
    by (simp add: routes_boot path_defs operations_def)
  obtain c where c: "run_handler h dao req st =
     (spec_completion (fst (invoke dao c (db st))),
      \<lparr>db = snd (invoke dao c (db st)), trace = trace st @ [c],
         res = (case fst (invoke dao c (db st)) of
                  Resolves v \<Rightarrow> json v (res st) | _ \<Rightarrow> res st)\<rparr>)"
    using run_handler_shape by blast
  show "case run_handler h dao req st of
        (k, st') \<Rightarrow>
          length (trace st') = Suc (length (trace st)) \<and>
          (case invoke dao (last (trace st')) (db st) of
             (out, s') \<Rightarrow>
               k = spec_completion out \<and> db st' = s' \<and>
               res st' = (case out of Resolves v \<Rightarrow> json v (res st) | _ \<Rightarrow> res st)) \<and>
          sent (res st') =
            sent (res st) @
              (case fst (invoke dao (last (trace st')) (db st)) of
                 Resolves v \<Rightarrow> [v] | _ \<Rightarrow> [])"
    by (simp add: c json_def split: prod.splits outcome.splits)
qed


section \<open>The singleton initializer\<close>

text \<open>
  Claim C2. \<open>getInstance\<close> is idempotent: the first call constructs the controller and
  registers each of the ten routes exactly once on the given server; every later call
  registers no routes and returns the same controller instance as the first call.

  The first call is the one that finds the static field \<open>null\<close>. It appends to the
  routes the application already has exactly the ten bindings listed, pairwise
  different, all to members of the controller it has just constructed. After it, a call
  with any application \<open>b\<close> returns that controller and changes nothing, and so does any
  sequence \<open>bs\<close> of calls.
\<close>

theorem getInstance_idempotent:
  assumes "userController w = None"
  shows "case getInstance a w of
           (c, w1) \<Rightarrow>
             take (length (routes w a)) (routes w1 a) = routes w a \<and>
             map binding (drop (length (routes w a)) (routes w1 a)) =
               [(GET, ''/api/users'', HfindAllUsers),
                (GET, ''/api/users/:userid'', HfindUserById),
                (POST, ''/api/users'', HcreateUser),
                (PUT, ''/api/users/:userid'', HupdateUser),
                (DELETE, ''/api/users/:userid'', HdeleteUser),
                (DELETE, ''/api/users'', HdeleteAllUsers),
                (DELETE, ''/api/users/username/:username/delete'', HdeleteUsersByUsername),
                (GET, ''/api/users/type/:type'', HfindUsersByType),
                (GET, ''/api/users/business/:rid'', HfindUsersByRestaurant),
                (DELETE, ''/api/users/business/:rid'', HdeleteUsersByRestaurant)] \<and>
             distinct (map binding (drop (length (routes w a)) (routes w1 a))) \<and>
             map (fst \<circ> rhandler) (drop (length (routes w a)) (routes w1 a)) = replicate 10 c \<and>
             c = Controller (constructed w) \<and>
             userController w1 = Some c \<and>
             getInstance b w1 = (c, w1) \<and>
             fold (\<lambda>b' w'. snd (getInstance b' w')) bs w1 = w1 \<and>
             list_all (\<lambda>b'. fst (getInstance b' w1) = c) bs"
proof -
  let ?c = "Controller (constructed w)"
  obtain w1 where g: "getInstance a w = (?c, w1)" and u: "userController w1 = Some ?c"
    and r: "routes w1 a = routes w a @
          [\<lparr>rmethod = GET, rpath = ''/api/users'', rhandler = (?c, HfindAllUsers)\<rparr>,
           \<lparr>rmethod = GET, rpath = ''/api/users/:userid'', rhandler = (?c, HfindUserById)\<rparr>,
           \<lparr>rmethod = POST, rpath = ''/api/users'', rhandler = (?c, HcreateUser)\<rparr>,
           \<lparr>rmethod = PUT, rpath = ''/api/users/:userid'', rhandler = (?c, HupdateUser)\<rparr>,
           \<lparr>rmethod = DELETE, rpath = ''/api/users/:userid'', rhandler = (?c, HdeleteUser)\<rparr>,
           \<lparr>rmethod = DELETE, rpath = ''/api/users'', rhandler = (?c, HdeleteAllUsers)\<rparr>,
           \<lparr>rmethod = DELETE, rpath = ''/api/users/username/:username/delete'', rhandler = (?c, HdeleteUsersByUsername)\<rparr>,
           \<lparr>rmethod = GET, rpath = ''/api/users/type/:type'', rhandler = (?c, HfindUsersByType)\<rparr>,
           \<lparr>rmethod = GET, rpath = ''/api/users/business/:rid'', rhandler = (?c, HfindUsersByRestaurant)\<rparr>,
           \<lparr>rmethod = DELETE, rpath = ''/api/users/business/:rid'', rhandler = (?c, HdeleteUsersByRestaurant)\<rparr>]"
    using assms by (simp add: getInstance_null)
  have again: "getInstance b' w1 = (?c, w1)" for b'
    using u by (rule getInstance_set)
  have fold_again: "fold (\<lambda>b' w'. snd (getInstance b' w')) bs w1 = w1"
    by (induction bs) (simp_all add: again)
  have all_again: "list_all (\<lambda>b'. fst (getInstance b' w1) = ?c) bs"
    by (simp add: again list_all_iff)
  show ?thesis
    using u fold_again all_again by (simp add: g r again binding_def numeral_eq_Suc)
qed

theorem getInstance_idempotent_witness:
  "userController initial_world = None \<and>
   (case getInstance 0 initial_world of
      (c, w1) \<Rightarrow>
        length (routes w1 0) = 10 \<and> c = Controller 0 \<and>
        getInstance 1 w1 = (c, w1) \<and>
        fold (\<lambda>b' w'. snd (getInstance b' w')) [0, 1, 0] w1 = w1)"
proof -
  have h: "userController initial_world = None"
    by (simp add: initial_world_def)
  show ?thesis
    using h getInstance_idempotent [OF h, of 0 1 "[0, 1, 0]"]
    by (auto simp: initial_world_def split: prod.splits dest!: arg_cong [where f = length])
qed

text \<open>
  Claim C10. After the first initialization \<open>getInstance\<close> ignores its argument: called
  with a different server \<open>b\<close> it registers no route on \<open>b\<close>, returns the controller
  whose members are bound on the first server \<open>a\<close>, and leaves \<open>b\<close> as it was; a server \<open>b\<close>
  that had no routes serves no request afterwards.
\<close>

theorem getInstance_ignores_later_app:
  assumes "userController w = None" and "a \<noteq> b"
  shows "case getInstance a w of
           (c, w1) \<Rightarrow>
             getInstance b w1 = (c, w1) \<and>
             routes (snd (getInstance b w1)) b = routes w b \<and>
             length (routes w1 a) = length (routes w a) + 10 \<and>
             list_all (\<lambda>r. fst (rhandler r) = c) (drop (length (routes w a)) (routes w1 a)) \<and>
             (routes w b = [] \<longrightarrow> serve dao (snd (getInstance b w1)) b m p bd s = None)"
proof -
  let ?c = "Controller (constructed w)"
  obtain w1 where g: "getInstance a w = (?c, w1)" and u: "userController w1 = Some ?c"
    and ra: "length (routes w1 a) = length (routes w a) + 10"
    and rc: "list_all (\<lambda>r. fst (rhandler r) = ?c) (drop (length (routes w a)) (routes w1 a))"
    and rb: "routes w1 b = routes w b"
    using assms by (simp add: getInstance_null)
  have again: "getInstance b w1 = (?c, w1)"
    using u by (rule getInstance_set)
  show ?thesis
    using ra rc by (simp add: g again rb serve_def)
qed

theorem getInstance_ignores_later_app_witness:
  "userController initial_world = None \<and> (0::app) \<noteq> 2 \<and>
   getInstance 2 (boot 0) = (Controller 0, boot 0) \<and>
   routes (snd (getInstance 2 (boot 0))) 2 = [] \<and>
   length (routes (boot 0) 0) = 10 \<and>
   serve spec_dao (snd (getInstance 2 (boot 0))) 2 GET [''api'', ''users''] JUndefined
     \<lparr>users = [], next_id = 0\<rparr> = None"
proof -
  have h: "userController initial_world = None"
    by (simp add: initial_world_def)
  have d: "(0::app) \<noteq> 2"
    by simp
  have g: "getInstance 0 initial_world = (Controller 0, boot 0)"
    by (simp add: boot_def getInstance_null initial_world_def)
  have e: "routes initial_world 2 = []" "routes initial_world 0 = []"
    by (simp_all add: initial_world_def)
  show ?thesis
    using h d getInstance_ignores_later_app [OF h d, of spec_dao GET "[''api'', ''users'']"
        JUndefined "\<lparr>users = [], next_id = 0\<rparr>"]
    by (auto simp: g e)
qed

section \<open>The registered paths and the specification's table\<close>

text \<open>
  Claim C5, as stated: the ten registered routes are exactly the rows of the
  specification's HTTP surface table, all under a \<open>/users\<close> root, list-all at
  \<open>GET /users\<close>. The code registers every route under \<open>/api/users\<close>: the signatures of
  the registered routes are not those of the table, and the table's list-all request
  \<open>GET /users\<close> matches no registered route.
\<close>

theorem route_paths_counterexample:
  "map route_sig (routes (boot 0) 0) \<noteq> map spec_sig operations \<and>
   spec_surface ListAll = (GET, ''/users'') \<and>
   find_route (routes (boot 0) 0) GET (spec_path ListAll []) = None \<and>
   (GET, [Some ''users'']) \<notin> set (map route_sig (routes (boot 0) 0))"
  by (simp add: routes_boot route_sig_def route_shape_def spec_sig_def operations_def path_defs)

text \<open>
  Claim C5, amended: the ten registered routes are the rows of the table with \<open>/api\<close>
  put before each path, that is under an \<open>/api/users\<close> root, each with the method the
  table states, in the table's order.
\<close>

theorem route_paths_under_api:
  "map route_sig (routes (boot a) a) = map api_sig operations"
  by (simp add: routes_boot route_sig_def route_shape_def api_sig_def operations_def path_defs)

section \<open>Failure of the store\<close>

text \<open>
  Claim C3. For every handler, if the delegated store operation fails (the returned
  promise rejects), the handler catches nothing and writes no response: the rejection
  propagates out of the handler, and the response is left untouched by this layer.

  First conjunct: when the store call of operation \<open>op\<close> is rejected with reason \<open>e\<close>,
  the request ends with the handler's promise rejected with the same \<open>e\<close>, after that one
  store call, with the response as fresh as it was handed in. Second conjunct: whatever
  handler, request and response, a rejected handler promise leaves the response as it
  was, and its reason is the reason the store call was rejected with. A handler has no
  access to the controller's own state (the static fields and the route tables): it is
  neither an argument nor a result of \<open>run_handler\<close>.
\<close>

theorem rejection_propagates:
  assumes "fst (invoke dao (spec_store_call op (JStr x) b) s) = Rejects e"
  shows "serve dao (boot a) a (spec_method op) (''api'' # spec_path op x) b s =
           Some (Rejected e,
                 \<lparr>db = snd (invoke dao (spec_store_call op (JStr x) b) s),
                    trace = [spec_store_call op (JStr x) b],
                    res = fresh_response\<rparr>)
         \<and> (fst (run_handler h dao' req st) = Rejected e'
              \<longrightarrow> res (snd (run_handler h dao' req st)) = res st
                  \<and> fst (invoke dao' (last (trace (snd (run_handler h dao' req st)))) (db st))
                      = Rejects e')"
proof (intro conjI impI)
  show "serve dao (boot a) a (spec_method op) (''api'' # spec_path op x) b s =
           Some (Rejected e,
                 \<lparr>db = snd (invoke dao (spec_store_call op (JStr x) b) s),
                    trace = [spec_store_call op (JStr x) b],
                    res = fresh_response\<rparr>)"
    using assms by (auto simp: serve_boot split: prod.splits)
next
  assume r: "fst (run_handler h dao' req st) = Rejected e'"
  obtain c where c: "run_handler h dao' req st =
     (spec_completion (fst (invoke dao' c (db st))),
      \<lparr>db = snd (invoke dao' c (db st)), trace = trace st @ [c],
         res = (case fst (invoke dao' c (db st)) of
                  Resolves v \<Rightarrow> json v (res st) | _ \<Rightarrow> res st)\<rparr>)"
    using run_handler_shape by blast
  from r have "fst (invoke dao' c (db st)) = Rejects e'"
    by (simp add: c spec_completion_Rejected)
  then show "res (snd (run_handler h dao' req st)) = res st"
    and "fst (invoke dao' (last (trace (snd (run_handler h dao' req st)))) (db st)) = Rejects e'"
    by (simp_all add: c)
qed

theorem rejection_propagates_witness:
  "fst (invoke (spec_dao\<lparr>dao_createUser := (\<lambda>b s. (Rejects (Error ''connection lost''), s))\<rparr>)
          (spec_store_call Create (JStr []) JNull) \<lparr>users = [], next_id = 0\<rparr>)
     = Rejects (Error ''connection lost'') \<and>
   serve (spec_dao\<lparr>dao_createUser := (\<lambda>b s. (Rejects (Error ''connection lost''), s))\<rparr>)
     (boot 0) 0 POST [''api'', ''users''] JNull \<lparr>users = [], next_id = 0\<rparr> =
     Some (Rejected (Error ''connection lost''),
           \<lparr>db = \<lparr>users = [], next_id = 0\<rparr>, trace = [CreateUser JNull],
              res = fresh_response\<rparr>) \<and>
   fst (run_handler HupdateUser
          (spec_dao\<lparr>dao_updateUser := (\<lambda>i b s. (Rejects (Error ''connection lost''), s))\<rparr>)
          \<lparr>params = [(''userid'', ''7'')], body = JNull\<rparr>
          (start \<lparr>users = [], next_id = 0\<rparr> fresh_response))
     = Rejected (Error ''connection lost'') \<and>
   res (snd (run_handler HupdateUser
          (spec_dao\<lparr>dao_updateUser := (\<lambda>i b s. (Rejects (Error ''connection lost''), s))\<rparr>)
          \<lparr>params = [(''userid'', ''7'')], body = JNull\<rparr>
          (start \<lparr>users = [], next_id = 0\<rparr> fresh_response))) = fresh_response"
proof -
  have h: "fst (invoke
                 (spec_dao\<lparr>dao_createUser := (\<lambda>b s. (Rejects (Error ''connection lost''), s))\<rparr>)
                 (spec_store_call Create (JStr []) JNull) \<lparr>users = [], next_id = 0\<rparr>)
             = Rejects (Error ''connection lost'')"
    by simp
  have k: "fst (run_handler HupdateUser
          (spec_dao\<lparr>dao_updateUser := (\<lambda>i b s. (Rejects (Error ''connection lost''), s))\<rparr>)
          \<lparr>params = [(''userid'', ''7'')], body = JNull\<rparr>
          (start \<lparr>users = [], next_id = 0\<rparr> fresh_response))
          = Rejected (Error ''connection lost'')"
    by (simp add: updateUser_def then_call start_def)
  show ?thesis
    using h k rejection_propagates [OF h, of 0 HupdateUser
        "spec_dao\<lparr>dao_updateUser := (\<lambda>i b s. (Rejects (Error ''connection lost''), s))\<rparr>"
        "\<lparr>params = [(''userid'', ''7'')], body = JNull\<rparr>"
        "start \<lparr>users = [], next_id = 0\<rparr> fresh_response" "Error ''connection lost''"]
    by (simp add: path_defs start_def)
qed

section \<open>Success responses\<close>

text \<open>
  Claim C4. For every id, the get-user-by-id handler returns exactly the value the
  store's \<open>findUserById\<close> reports for that id, unmodified, including the store's "not
  found" result (null), which is serialized as it is in a success response rather than
  mapped to a 404.

  First conjunct: whatever value \<open>v\<close> the store resolves with for the request's
  \<open>userid\<close>, the handler makes that one call and sends \<open>v\<close> as JSON with status 200.
  Second and third conjunct: the handler is the one bound to \<open>GET /api/users/:userid\<close>,
  and the id segment \<open>i\<close> of the path reaches it as the parameter \<open>userid\<close>. The witness
  takes \<open>v\<close> null.
\<close>

theorem findUserById_returns_store_value:
  assumes "dao_findUserById dao (param req ''userid'') s = (Resolves v, s')"
  shows "findUserById dao req (start s fresh_response) =
           (Fulfilled,
            \<lparr>db = s', trace = [FindUserById (param req ''userid'')],
               res = \<lparr>statusCode = 200, contentType = Some ''application/json'', sent = [v]\<rparr>\<rparr>)
         \<and> find_route (routes (boot a) a) GET [''api'', ''users'', i] =
             Some (\<lparr>rmethod = GET, rpath = ''/api/users/:userid'',
                     rhandler = (Controller 0, HfindUserById)\<rparr>, [(''userid'', i)])
         \<and> param \<lparr>params = [(''userid'', i)], body = b\<rparr> ''userid'' = JStr i"
  using assms
  by (simp add: findUserById_def then_call start_def json_fresh routes_boot path_defs param_def)

theorem findUserById_returns_store_value_witness:
  "dao_findUserById spec_dao (param \<lparr>params = [(''userid'', ''7'')], body = JUndefined\<rparr> ''userid'')
     \<lparr>users = [], next_id = 0\<rparr> = (Resolves JNull, \<lparr>users = [], next_id = 0\<rparr>) \<and>
   findUserById spec_dao \<lparr>params = [(''userid'', ''7'')], body = JUndefined\<rparr>
     (start \<lparr>users = [], next_id = 0\<rparr> fresh_response) =
     (Fulfilled,
      \<lparr>db = \<lparr>users = [], next_id = 0\<rparr>, trace = [FindUserById (JStr ''7'')],
         res = \<lparr>statusCode = 200, contentType = Some ''application/json'', sent = [JNull]\<rparr>\<rparr>)"
proof -
  have h: "dao_findUserById spec_dao
             (param \<lparr>params = [(''userid'', ''7'')], body = JUndefined\<rparr> ''userid'')
             \<lparr>users = [], next_id = 0\<rparr> = (Resolves JNull, \<lparr>users = [], next_id = 0\<rparr>)"
    by (simp add: spec_dao_def store_findById_def param_def)
  show ?thesis
    using h findUserById_returns_store_value [OF h]
    by (simp add: param_def)
qed

text \<open>
  Claim C6. For every route, whenever the store call succeeds, the response has HTTP
  status 200 and a JSON body; no handler ever sets a distinct status code for not-found
  or validation cases.

  First conjunct: for each operation, a store call that resolves with \<open>v\<close> ends the
  request with status 200, content type JSON and body \<open>v\<close>. Second conjunct: no handler,
  on any request, response and store outcome, changes the status code it finds.
\<close>

theorem success_status_200_json:
  assumes "fst (invoke dao (spec_store_call op (JStr x) b) s) = Resolves v"
  shows "(\<exists>st'. serve dao (boot a) a (spec_method op) (''api'' # spec_path op x) b s =
                  Some (Fulfilled, st') \<and>
                statusCode (res st') = 200 \<and>
                contentType (res st') = Some ''application/json'' \<and>
                sent (res st') = [v])
         \<and> statusCode (res (snd (run_handler h dao' req st))) = statusCode (res st)"
proof (intro conjI)
  show "\<exists>st'. serve dao (boot a) a (spec_method op) (''api'' # spec_path op x) b s =
                  Some (Fulfilled, st') \<and>
                statusCode (res st') = 200 \<and>
                contentType (res st') = Some ''application/json'' \<and>
                sent (res st') = [v]"
    using assms by (auto simp: serve_boot split: prod.splits)
  obtain c where c: "run_handler h dao' req st =
     (spec_completion (fst (invoke dao' c (db st))),
      \<lparr>db = snd (invoke dao' c (db st)), trace = trace st @ [c],
         res = (case fst (invoke dao' c (db st)) of
                  Resolves v \<Rightarrow> json v (res st) | _ \<Rightarrow> res st)\<rparr>)"
    using run_handler_shape by blast
  show "statusCode (res (snd (run_handler h dao' req st))) = statusCode (res st)"
    by (simp add: c statusCode_json split: outcome.splits)
qed

theorem success_status_200_json_witness:
  "fst (invoke spec_dao (spec_store_call GetById (JStr ''7'') JUndefined) \<lparr>users = [], next_id = 0\<rparr>)
     = Resolves JNull \<and>
   serve spec_dao (boot 0) 0 GET [''api'', ''users'', ''7''] JUndefined \<lparr>users = [], next_id = 0\<rparr> =
     Some (Fulfilled,
           \<lparr>db = \<lparr>users = [], next_id = 0\<rparr>, trace = [FindUserById (JStr ''7'')],
              res = \<lparr>statusCode = 200, contentType = Some ''application/json'',
                      sent = [JNull]\<rparr>\<rparr>) \<and>
   statusCode (res (snd (run_handler HdeleteUser spec_dao \<lparr>params = [], body = JUndefined\<rparr>
      \<lparr>db = \<lparr>users = [], next_id = 0\<rparr>, trace = [],
         res = \<lparr>statusCode = 404, contentType = None, sent = []\<rparr>\<rparr>))) = 404"
proof -
  have h: "fst (invoke spec_dao (spec_store_call GetById (JStr ''7'') JUndefined)
                 \<lparr>users = [], next_id = 0\<rparr>) = Resolves JNull"
    by (simp add: spec_dao_def store_findById_def)
  show ?thesis
    using h success_status_200_json [OF h, of 0 HdeleteUser spec_dao
        "\<lparr>params = [], body = JUndefined\<rparr>"
        "\<lparr>db = \<lparr>users = [], next_id = 0\<rparr>, trace = [],
           res = \<lparr>statusCode = 404, contentType = None, sent = []\<rparr>\<rparr>"]
    by (auto simp: path_defs spec_dao_def store_findById_def serve_def routes_boot
          findUserById_def then_call start_def json_fresh param_def)
qed

text \<open>
  Claim C9. For every id and body the update handler responds with exactly the store's
  update status; for no input does it respond with the updated user record itself.

  First conjunct: whatever \<open>v\<close> the store's \<open>updateUser\<close> resolves with, the handler
  makes that one call, with the request's \<open>userid\<close> and body, and sends \<open>v\<close>; it makes no
  call that reads a record. Second conjunct: the handler is the one bound to
  \<open>PUT /api/users/:userid\<close>. Third conjunct, on the store that follows the
  specification: for every id \<open>i\<close> and body \<open>B\<close> the response to the update is the
  status with the count of modified records, and no record of the store that carries
  the id is sent.
\<close>

theorem updateUser_returns_status:
  assumes "dao_updateUser dao (param req ''userid'') (body req) s = (Resolves v, s')"
  shows "updateUser dao req (start s fresh_response) =
           (Fulfilled,
            \<lparr>db = s', trace = [UpdateUser (param req ''userid'') (body req)],
               res = \<lparr>statusCode = 200, contentType = Some ''application/json'', sent = [v]\<rparr>\<rparr>)
         \<and> find_route (routes (boot a) a) PUT [''api'', ''users'', i] =
             Some (\<lparr>rmethod = PUT, rpath = ''/api/users/:userid'',
                     rhandler = (Controller 0, HupdateUser)\<rparr>, [(''userid'', i)])
         \<and> (\<exists>st'.
               serve spec_dao (boot a) a PUT [''api'', ''users'', i] B t = Some (Fulfilled, st') \<and>
               sent (res st') =
                 [status ''modifiedCount''
                    (length (filter (has_field ''id'' (JStr i)) (users t)))] \<and>
               list_all (\<lambda>u. JObj u \<notin> set (sent (res st')))
                 (filter (has_field ''id'' (JStr i)) (users (db st'))))"
proof (intro conjI)
  show "updateUser dao req (start s fresh_response) =
           (Fulfilled,
            \<lparr>db = s', trace = [UpdateUser (param req ''userid'') (body req)],
               res = \<lparr>statusCode = 200, contentType = Some ''application/json'', sent = [v]\<rparr>\<rparr>)"
    using assms by (simp add: updateUser_def then_call start_def json_fresh)
  show "find_route (routes (boot a) a) PUT [''api'', ''users'', i] =
             Some (\<lparr>rmethod = PUT, rpath = ''/api/users/:userid'',
                     rhandler = (Controller 0, HupdateUser)\<rparr>, [(''userid'', i)])"
    by (simp add: routes_boot path_defs)
  show "\<exists>st'.
               serve spec_dao (boot a) a PUT [''api'', ''users'', i] B t = Some (Fulfilled, st') \<and>
               sent (res st') =
                 [status ''modifiedCount''
                    (length (filter (has_field ''id'' (JStr i)) (users t)))] \<and>
               list_all (\<lambda>u. JObj u \<notin> set (sent (res st')))
                 (filter (has_field ''id'' (JStr i)) (users (db st')))"
    by (auto simp: serve_put spec_dao_def store_update_def list_all_iff status_no_record)
qed

theorem updateUser_returns_status_witness:
  "dao_updateUser spec_dao (param \<lparr>params = [(''userid'', ''7'')], body = JObj []\<rparr> ''userid'')
     (body \<lparr>params = [(''userid'', ''7'')], body = JObj []\<rparr>)
     \<lparr>users = [[(''id'', JStr ''7'')]], next_id = 8\<rparr>
     = (Resolves (JObj [(''modifiedCount'', JNum 1)]),
        \<lparr>users = [[(''id'', JStr ''7'')]], next_id = 8\<rparr>) \<and>
   updateUser spec_dao \<lparr>params = [(''userid'', ''7'')], body = JObj []\<rparr>
     (start \<lparr>users = [[(''id'', JStr ''7'')]], next_id = 8\<rparr> fresh_response) =
     (Fulfilled,
      \<lparr>db = \<lparr>users = [[(''id'', JStr ''7'')]], next_id = 8\<rparr>,
         trace = [UpdateUser (JStr ''7'') (JObj [])],
         res = \<lparr>statusCode = 200, contentType = Some ''application/json'',
                 sent = [JObj [(''modifiedCount'', JNum 1)]]\<rparr>\<rparr>)"
proof -
  have h: "dao_updateUser spec_dao
     (param \<lparr>params = [(''userid'', ''7'')], body = JObj []\<rparr> ''userid'')
     (body \<lparr>params = [(''userid'', ''7'')], body = JObj []\<rparr>)
     \<lparr>users = [[(''id'', JStr ''7'')]], next_id = 8\<rparr>
     = (Resolves (JObj [(''modifiedCount'', JNum 1)]),
        \<lparr>users = [[(''id'', JStr ''7'')]], next_id = 8\<rparr>)"
    by (simp add: spec_dao_def store_update_def param_def has_field_def status_def
          set_fields_def body_fields_def)
  show ?thesis
    using h updateUser_returns_status [OF h]
    by (simp add: param_def)
qed

section \<open>Sequences of requests on the store of the specification\<close>

text \<open>
  Claim C7. For every store state, the delete-all operation followed by the list-all
  operation, with nothing in between, yields an empty sequence as the list-all response
  body.
\<close>

theorem delete_all_then_list_all_empty:
  "\<exists>st1 st2.
     serve spec_dao (boot a) a DELETE [''api'', ''users''] b1 s = Some (Fulfilled, st1) \<and>
     serve spec_dao (boot a) a GET [''api'', ''users''] b2 (db st1) = Some (Fulfilled, st2) \<and>
     sent (res st2) = [JArr []]"
  by (simp add: serve_delete_all serve_list_all spec_dao_def delete_where_def find_where_def)

text \<open>
  Claim C8. For every body \<open>B\<close>, creating a user with \<open>POST\<close> and body \<open>B\<close> and then
  getting by the id returned in the create response yields a record matching the fields
  of \<open>B\<close> plus the assigned id.

  For every body \<open>B\<close> and every store state the create request is answered with a
  record \<open>u\<close> whose fields are those of \<open>B\<close> with \<open>id\<close> set to the assigned identifier
  \<open>i\<close>, and the get request for \<open>i\<close> that follows is answered with the same \<open>u\<close>. The
  fields of an object body are the object's own (last conjunct).
\<close>

theorem create_then_get_round_trip:
  "(\<exists>i u st1 st2.
      serve spec_dao (boot a) a POST [''api'', ''users''] B s = Some (Fulfilled, st1) \<and>
      sent (res st1) = [JObj u] \<and>
      map_of u = (map_of (body_fields B))(''id'' \<mapsto> JStr i) \<and>
      i = show_nat (next_id s) \<and>
      serve spec_dao (boot a) a GET [''api'', ''users'', i] b (db st1) = Some (Fulfilled, st2) \<and>
      sent (res st2) = [JObj u])
   \<and> body_fields (JObj fs) = fs"
  by (simp add: serve_create serve_get spec_dao_def store_create_def store_findById_def
        has_field_def update_conv' body_fields_def Let_def)

end
